theory Spec2Isabelle
  imports Main "HOL-Library.Finite_Map" "HOL-Library.Sublist"
begin

section \<open>Values of the profile document\<close>

text \<open>
  A profile document is what \<^verbatim>\<open>collection.get(doc_id).content_as[dict]\<close> returns: a JSON
  object whose values are JSON values. Python dictionaries are finite maps from strings to
  values; equality of finite maps is Python's \<^verbatim>\<open>==\<close> on dictionaries (the order of
  insertion plays no role in any function below). JSON numbers are modelled as integers
  only: floating point numbers are left out.
\<close>

datatype json =
    JNone
  | JBool bool
  | JInt int
  | JStr string
  | JList "json list"
  | JDict "(string, json) fmap"

type_synonym dict = "(string, json) fmap"

text \<open>The exceptions the code can raise on a value of the wrong shape.\<close>

datatype py_error = TypeError | KeyError | AttributeError | DocumentNotFoundException

text \<open>Python's truth value of an object, as used by \<^verbatim>\<open>if x:\<close>.\<close>

fun truthy :: "json \<Rightarrow> bool" where
  "truthy JNone = False"
| "truthy (JBool b) = b"
| "truthy (JInt i) = (i \<noteq> 0)"
| "truthy (JStr s) = (s \<noteq> [])"
| "truthy (JList xs) = (xs \<noteq> [])"
| "truthy (JDict m) = (m \<noteq> fmempty)"

text \<open>\<^verbatim>\<open>isinstance(v, dict)\<close>.\<close>

fun is_dict :: "json \<Rightarrow> bool" where
  "is_dict (JDict m) = True"
| "is_dict v = False"

text \<open>
  \<^verbatim>\<open>key in v\<close> for a string \<^verbatim>\<open>key\<close>: a key of a dictionary, an element of a list, a
  substring of a string; the other values are not iterable.
\<close>

fun py_in :: "string \<Rightarrow> json \<Rightarrow> py_error + bool" where
  "py_in key (JDict m) = Inr (fmlookup m key \<noteq> None)"
| "py_in key (JList xs) = Inr (JStr key \<in> set xs)"
| "py_in key (JStr s) = Inr (sublist key s)"
| "py_in key v = Inl TypeError"

section \<open>The clock\<close>

text \<open>
  A reading of \<^verbatim>\<open>datetime.now()\<close>: a naive local date and time with microseconds.
\<close>

record datetime =
  year :: nat
  month :: nat
  day :: nat
  hour :: nat
  minute :: nat
  second :: nat
  microsecond :: nat

definition digit :: "nat \<Rightarrow> char" where
  "digit d = ''0123456789'' ! (d mod 10)"

text \<open>The decimal digits of \<open>n\<close>, zero-padded to the width \<open>k\<close> (the low \<open>k\<close> digits).\<close>

fun zpad :: "nat \<Rightarrow> nat \<Rightarrow> string" where
  "zpad 0 n = []"
| "zpad (Suc k) n = zpad k (n div 10) @ [digit n]"

text \<open>
  \<^verbatim>\<open>datetime.isoformat()\<close>: \<^verbatim>\<open>YYYY-MM-DDTHH:MM:SS\<close>, followed by \<^verbatim>\<open>.ffffff\<close> when the
  microsecond is not zero.
\<close>

definition isoformat :: "datetime \<Rightarrow> string" where
  "isoformat t =
     zpad 4 (year t) @ ''-'' @ zpad 2 (month t) @ ''-'' @ zpad 2 (day t) @ ''T'' @
     zpad 2 (hour t) @ '':'' @ zpad 2 (minute t) @ '':'' @ zpad 2 (second t) @
     (if microsecond t = 0 then [] else ''.'' @ zpad 6 (microsecond t))"

text \<open>\<^verbatim>\<open>datetime.strftime('%Y%m%d_%H%M%S')\<close>: the reading cut to the second.\<close>

definition strftime_ymd_hms :: "datetime \<Rightarrow> string" where
  "strftime_ymd_hms t =
     zpad 4 (year t) @ zpad 2 (month t) @ zpad 2 (day t) @ ''_'' @
     zpad 2 (hour t) @ zpad 2 (minute t) @ zpad 2 (second t)"

section \<open>The document store and the world\<close>

text \<open>
  The world an operation runs in: the collection (document id to document), the clock as
  the sequence of its readings with the number of readings taken so far, and the number of
  \<^verbatim>\<open>collection.upsert\<close> calls made so far.
\<close>

record world =
  docs :: "string \<rightharpoonup> dict"
  clock :: "nat \<Rightarrow> datetime"
  tick :: nat
  upserts :: nat

text \<open>
  The outcome of a call: the value returned or the exception raised, and the world the call
  leaves behind.
\<close>

type_synonym 'a result = "(py_error + 'a) \<times> world"

definition now :: "world \<Rightarrow> datetime \<times> world" where
  "now w = (clock w (tick w), w\<lparr>tick := Suc (tick w)\<rparr>)"

definition now_iso :: "world \<Rightarrow> json \<times> world" where
  "now_iso w = (JStr (isoformat (fst (now w))), snd (now w))"

definition doc_id :: "string \<Rightarrow> string" where
  "doc_id user_id = ''user::'' @ user_id"

definition collection_get :: "world \<Rightarrow> string \<Rightarrow> dict option" where
  "collection_get w k = docs w k"

definition collection_upsert :: "string \<Rightarrow> dict \<Rightarrow> world \<Rightarrow> world" where
  "collection_upsert k d w = w\<lparr>docs := (docs w)(k \<mapsto> d), upserts := Suc (upserts w)\<rparr>"

section \<open>CouchbaseMemory\<close>

text \<open>The metadata block written when a document has none.\<close>

definition new_metadata :: "json \<Rightarrow> json \<Rightarrow> json" where
  "new_metadata c l =
     JDict (fmap_of_list [(''created_at'', c), (''last_updated'', l), (''version'', JInt 1)])"

text \<open>The literal \<^verbatim>\<open>default_schema\<close> of \<^verbatim>\<open>initialize_user_schema\<close>.\<close>

definition default_schema :: "json \<Rightarrow> json \<Rightarrow> dict" where
  "default_schema c l = fmap_of_list [
     (''personal_info'', JDict (fmap_of_list [
        (''name'', JStr []), (''age'', JInt 0), (''domain'', JStr [])])),
     (''daily_routine'', JDict (fmap_of_list [
        (''meal_timings'', JDict (fmap_of_list [
           (''breakfast'', JStr []), (''lunch'', JStr []), (''dinner'', JStr [])])),
        (''working_hours'', JDict (fmap_of_list [
           (''start'', JStr []), (''end'', JStr []), (''timezone'', JStr [])])),
        (''workout_preferences'', JList [])])),
     (''habits_and_behaviors'', JDict (fmap_of_list [
        (''procrastination_habits'', JList []), (''known_blockers'', JList [])])),
     (''task_tracking'', JDict (fmap_of_list [
        (''current_tasks'', JList []), (''completed_tasks'', JList [])])),
     (''productivity_insights'', JDict (fmap_of_list [
        (''best_focus_times'', JList []),
        (''energy_levels'', JDict (fmap_of_list [
           (''morning'', JStr []), (''afternoon'', JStr []), (''evening'', JStr [])])),
        (''habit_streaks'', JDict (fmap_of_list [
           (''workout_streak_days'', JInt 0), (''task_completion_streak'', JInt 0)]))])),
     (''preferences'', JDict (fmap_of_list [
        (''notifications'', JDict (fmap_of_list [
           (''reminder_frequency'', JStr []), (''preferred_channels'', JList [])])),
        (''motivation_style'', JStr [])])),
     (''metadata'', new_metadata c l)]"

text \<open>
  \<^verbatim>\<open>doc["metadata"]["last_updated"] = v\<close>: a \<^verbatim>\<open>KeyError\<close> without the key
  \<^verbatim>\<open>metadata\<close>, a \<^verbatim>\<open>TypeError\<close> when its value is not a dictionary.
\<close>

definition set_last_updated :: "json \<Rightarrow> dict \<Rightarrow> py_error + dict" where
  "set_last_updated v doc =
     (case fmlookup doc ''metadata'' of
        None \<Rightarrow> Inl KeyError
      | Some (JDict m) \<Rightarrow> Inr (fmupd ''metadata'' (JDict (fmupd ''last_updated'' v m)) doc)
      | Some _ \<Rightarrow> Inl TypeError)"

text \<open>
  The loop \<^verbatim>\<open>for key, value in default_schema.items(): if key not in existing_doc:
  existing_doc[key] = value\<close>.
\<close>

definition backfill :: "dict \<Rightarrow> dict \<Rightarrow> dict" where
  "backfill existing_doc schema =
     existing_doc ++\<^sub>f fmfilter (\<lambda>key. fmlookup existing_doc key = None) schema"

text \<open>
  \<^verbatim>\<open>if user_data: default_schema.update(user_data)\<close>; \<open>None\<close> is the default argument.
\<close>

definition apply_seed :: "dict option \<Rightarrow> dict \<Rightarrow> dict" where
  "apply_seed user_data schema =
     (case user_data of
        None \<Rightarrow> schema
      | Some ud \<Rightarrow> if ud \<noteq> fmempty then schema ++\<^sub>f ud else schema)"

definition initialize_user_schema :: "string \<Rightarrow> dict option \<Rightarrow> world \<Rightarrow> bool result" where
  "initialize_user_schema user_id user_data w =
     (let (c, w1) = now_iso w;
          (l, w2) = now_iso w1;
          schema1 = apply_seed user_data (default_schema c l);
          (l3, w3) = now_iso w2
      in case set_last_updated l3 schema1 of
           Inl e \<Rightarrow> (Inl e, w3)
         | Inr schema \<Rightarrow>
             (case collection_get w3 (doc_id user_id) of
                Some existing_doc \<Rightarrow>
                  (let (l4, w4) = now_iso w3
                   in case set_last_updated l4 (backfill existing_doc schema) of
                        Inl e \<Rightarrow> (Inl e, w4)
                      | Inr doc \<Rightarrow> (Inr True, collection_upsert (doc_id user_id) doc w4))
              | None \<Rightarrow> (Inr True, collection_upsert (doc_id user_id) schema w3)))"

text \<open>
  The read at the head of every mutating operation but \<^verbatim>\<open>_complete_task\<close>: the document,
  after \<^verbatim>\<open>initialize_user_schema(user_id)\<close> when there was none.
\<close>

definition get_or_initialize :: "string \<Rightarrow> world \<Rightarrow> dict result" where
  "get_or_initialize user_id w =
     (case collection_get w (doc_id user_id) of
        Some doc \<Rightarrow> (Inr doc, w)
      | None \<Rightarrow>
          (case initialize_user_schema user_id None w of
             (Inl e, w') \<Rightarrow> (Inl e, w')
           | (Inr _, w') \<Rightarrow>
               (case collection_get w' (doc_id user_id) of
                  Some doc \<Rightarrow> (Inr doc, w')
                | None \<Rightarrow> (Inl DocumentNotFoundException, w'))))"

text \<open>\<^verbatim>\<open>if "metadata" not in doc: doc["metadata"] = {...}\<close>, with its two clock readings.\<close>

definition ensure_metadata :: "dict \<Rightarrow> world \<Rightarrow> dict \<times> world" where
  "ensure_metadata doc w =
     (if fmlookup doc ''metadata'' = None
      then (let (c, w1) = now_iso w; (l, w2) = now_iso w1
            in (fmupd ''metadata'' (new_metadata c l) doc, w2))
      else (doc, w))"

text \<open>The section update of \<^verbatim>\<open>update_user_section\<close>: merge two dictionaries, replace otherwise.\<close>

definition merge_section :: "string \<Rightarrow> json \<Rightarrow> dict \<Rightarrow> dict" where
  "merge_section section data doc =
     (case (fmlookup doc section, data) of
        (Some (JDict old), JDict new) \<Rightarrow> fmupd section (JDict (old ++\<^sub>f new)) doc
      | _ \<Rightarrow> fmupd section data doc)"

definition update_user_section :: "string \<Rightarrow> string \<Rightarrow> json \<Rightarrow> world \<Rightarrow> bool result" where
  "update_user_section user_id section data w =
     (case get_or_initialize user_id w of
        (Inl e, w0) \<Rightarrow> (Inl e, w0)
      | (Inr doc0, w0) \<Rightarrow>
          (let (doc1, w1) = ensure_metadata doc0 w0;
               doc2 = merge_section section data doc1;
               (l, w2) = now_iso w1
           in case set_last_updated l doc2 of
                Inl e \<Rightarrow> (Inl e, w2)
              | Inr doc \<Rightarrow> (Inr True, collection_upsert (doc_id user_id) doc w2)))"

text \<open>
  \<^verbatim>\<open>get_user_section\<close>: \<^verbatim>\<open>section\<close> is \<open>None\<close> for the default argument; an empty
  section name is falsy and asks for the whole document as well.
\<close>

definition get_user_section :: "string \<Rightarrow> string option \<Rightarrow> world \<Rightarrow> json" where
  "get_user_section user_id section w =
     (case collection_get w (doc_id user_id) of
        Some doc \<Rightarrow>
          (case section of
             Some s \<Rightarrow>
               (if s \<noteq> [] then (case fmlookup doc s of Some v \<Rightarrow> v | None \<Rightarrow> JDict fmempty)
                else JDict doc)
           | None \<Rightarrow> JDict doc)
      | None \<Rightarrow> JDict fmempty)"

text \<open>\<^verbatim>\<open>if key not in doc[sec]: doc[sec][key] = dflt\<close>, a statement of most operations.\<close>

definition ensure_sub :: "string \<Rightarrow> string \<Rightarrow> json \<Rightarrow> dict \<Rightarrow> py_error + dict" where
  "ensure_sub sec key dflt doc =
     (case fmlookup doc sec of
        None \<Rightarrow> Inl KeyError
      | Some v \<Rightarrow>
          (case py_in key v of
             Inl e \<Rightarrow> Inl e
           | Inr True \<Rightarrow> Inr doc
           | Inr False \<Rightarrow>
               (case v of
                  JDict m \<Rightarrow> Inr (fmupd sec (JDict (fmupd key dflt m)) doc)
                | _ \<Rightarrow> Inl TypeError)))"

text \<open>
  The read \<^verbatim>\<open>doc[sec][key]\<close>: a list or a string takes no string index, the other
  values no index at all.
\<close>

definition get_sub :: "string \<Rightarrow> string \<Rightarrow> dict \<Rightarrow> py_error + json" where
  "get_sub sec key doc =
     (case fmlookup doc sec of
        None \<Rightarrow> Inl KeyError
      | Some (JDict m) \<Rightarrow> (case fmlookup m key of None \<Rightarrow> Inl KeyError | Some v \<Rightarrow> Inr v)
      | Some _ \<Rightarrow> Inl TypeError)"

text \<open>
  The value at \<^verbatim>\<open>doc[sec][key]\<close> after a method of it has changed it in place.
\<close>

definition set_sub :: "string \<Rightarrow> string \<Rightarrow> json \<Rightarrow> dict \<Rightarrow> dict" where
  "set_sub sec key v doc =
     (case fmlookup doc sec of
        Some (JDict m) \<Rightarrow> fmupd sec (JDict (fmupd key v m)) doc
      | _ \<Rightarrow> doc)"

text \<open>\<^verbatim>\<open>v.append(x)\<close>: only a list has the method.\<close>

definition list_append :: "json \<Rightarrow> json \<Rightarrow> py_error + json" where
  "list_append v x = (case v of JList xs \<Rightarrow> Inr (JList (xs @ [x])) | _ \<Rightarrow> Inl AttributeError)"

definition empty_task_tracking :: json where
  "empty_task_tracking =
     JDict (fmap_of_list [(''current_tasks'', JList []), (''completed_tasks'', JList [])])"

definition ensure_task_tracking :: "dict \<Rightarrow> dict" where
  "ensure_task_tracking doc =
     (if fmlookup doc ''task_tracking'' = None
      then fmupd ''task_tracking'' empty_task_tracking doc else doc)"

text \<open>
  The method \<^verbatim>\<open>CouchbaseMemory._add_task\<close> (an Isabelle name does not start with an
  underscore: the methods \<^verbatim>\<open>_add_task\<close>, \<^verbatim>\<open>_complete_task\<close> and
  \<^verbatim>\<open>_update_productivity_insights\<close> carry the prefix \<open>mem\<close>).
\<close>

definition mem_add_task :: "string \<Rightarrow> dict \<Rightarrow> world \<Rightarrow> bool result" where
  "mem_add_task user_id task_data w =
     (case get_or_initialize user_id w of
        (Inl e, w0) \<Rightarrow> (Inl e, w0)
      | (Inr doc0, w0) \<Rightarrow>
          (case ensure_sub ''task_tracking'' ''current_tasks'' (JList [])
                  (ensure_task_tracking doc0) of
             Inl e \<Rightarrow> (Inl e, w0)
           | Inr doc2 \<Rightarrow>
               (let (doc3, w1) = ensure_metadata doc2 w0;
                    (la, w2) = now_iso w1;
                    task = fmupd ''last_activity'' la task_data
                in case get_sub ''task_tracking'' ''current_tasks'' doc3 of
                     Inl e \<Rightarrow> (Inl e, w2)
                   | Inr cur \<Rightarrow>
                       (case list_append cur (JDict task) of
                          Inl e \<Rightarrow> (Inl e, w2)
                        | Inr cur' \<Rightarrow>
                            (let doc4 = set_sub ''task_tracking'' ''current_tasks'' cur' doc3;
                                 (l, w3) = now_iso w2
                             in case set_last_updated l doc4 of
                                  Inl e \<Rightarrow> (Inl e, w3)
                                | Inr doc \<Rightarrow>
                                    (Inr True, collection_upsert (doc_id user_id) doc w3))))))"

text \<open>
  The loop \<^verbatim>\<open>for i, task in enumerate(current_tasks): if task.get("task_id") == task_id:
  completed_task = current_tasks.pop(i); break\<close> on a list: the first task with the id and
  the list without it, \<open>None\<close> when the loop ends without a match, \<^verbatim>\<open>AttributeError\<close>
  at an element before the match that is no dictionary.
\<close>

fun pop_task :: "string \<Rightarrow> json list \<Rightarrow> py_error + (dict \<times> json list) option" where
  "pop_task task_id [] = Inr None"
| "pop_task task_id (JDict t # xs) =
     (if fmlookup t ''task_id'' = Some (JStr task_id) then Inr (Some (t, xs))
      else (case pop_task task_id xs of
              Inl e \<Rightarrow> Inl e
            | Inr None \<Rightarrow> Inr None
            | Inr (Some (c, r)) \<Rightarrow> Inr (Some (c, JDict t # r))))"
| "pop_task task_id (x # xs) = Inl AttributeError"

text \<open>
  The same loop on any value of \<^verbatim>\<open>current_tasks\<close>: the elements of a dictionary (its keys)
  and of a string (its characters) are strings, which have no \<^verbatim>\<open>get\<close>; a number, a
  boolean and \<^verbatim>\<open>None\<close> are not iterable.
\<close>

definition scan_current_tasks :: "string \<Rightarrow> json \<Rightarrow> py_error + (dict \<times> json) option" where
  "scan_current_tasks task_id v =
     (case v of
        JList xs \<Rightarrow>
          (case pop_task task_id xs of
             Inl e \<Rightarrow> Inl e
           | Inr None \<Rightarrow> Inr None
           | Inr (Some (c, r)) \<Rightarrow> Inr (Some (c, JList r)))
      | JDict m \<Rightarrow> if m = fmempty then Inr None else Inl AttributeError
      | JStr s \<Rightarrow> if s = [] then Inr None else Inl AttributeError
      | _ \<Rightarrow> Inl TypeError)"

definition mem_complete_task :: "string \<Rightarrow> string \<Rightarrow> world \<Rightarrow> bool result" where
  "mem_complete_task user_id task_id w =
     (case collection_get w (doc_id user_id) of
        None \<Rightarrow> (Inr False, w)
      | Some doc0 \<Rightarrow>
          (case ensure_sub ''task_tracking'' ''current_tasks'' (JList [])
                  (ensure_task_tracking doc0) of
             Inl e \<Rightarrow> (Inl e, w)
           | Inr doc1 \<Rightarrow>
          (case ensure_sub ''task_tracking'' ''completed_tasks'' (JList []) doc1 of
             Inl e \<Rightarrow> (Inl e, w)
           | Inr doc2 \<Rightarrow>
          (case get_sub ''task_tracking'' ''current_tasks'' doc2 of
             Inl e \<Rightarrow> (Inl e, w)
           | Inr cur \<Rightarrow>
          (case scan_current_tasks task_id cur of
             Inl e \<Rightarrow> (Inl e, w)
           | Inr None \<Rightarrow> (Inr False, w)
           | Inr (Some (completed_task, cur')) \<Rightarrow>
               (if completed_task \<noteq> fmempty then
                  (let doc3 = set_sub ''task_tracking'' ''current_tasks'' cur' doc2;
                       (doc4, w1) = ensure_metadata doc3 w;
                       (co, w2) = now_iso w1;
                       task = fmupd ''status'' (JStr ''completed'')
                                (fmupd ''completed_on'' co completed_task)
                   in case get_sub ''task_tracking'' ''completed_tasks'' doc4 of
                        Inl e \<Rightarrow> (Inl e, w2)
                      | Inr done \<Rightarrow>
                          (case list_append done (JDict task) of
                             Inl e \<Rightarrow> (Inl e, w2)
                           | Inr done' \<Rightarrow>
                               (let doc5 = set_sub ''task_tracking'' ''completed_tasks'' done' doc4;
                                    (l, w3) = now_iso w2
                                in case set_last_updated l doc5 of
                                     Inl e \<Rightarrow> (Inl e, w3)
                                   | Inr doc \<Rightarrow>
                                       (Inr True, collection_upsert (doc_id user_id) doc w3))))
                else (Inr False, w)))))))"

definition mem_update_productivity_insights :: "string \<Rightarrow> json \<Rightarrow> world \<Rightarrow> bool result" where
  "mem_update_productivity_insights user_id insights w =
     update_user_section user_id ''productivity_insights'' insights w"

definition default_habit_streaks :: json where
  "default_habit_streaks =
     JDict (fmap_of_list [(''workout_streak_days'', JInt 0), (''task_completion_streak'', JInt 0)])"

definition default_productivity_insights :: json where
  "default_productivity_insights =
     JDict (fmap_of_list [
        (''best_focus_times'', JList []),
        (''energy_levels'', JDict (fmap_of_list [
           (''morning'', JStr []), (''afternoon'', JStr []), (''evening'', JStr [])])),
        (''habit_streaks'', default_habit_streaks)])"

text \<open>\<^verbatim>\<open>v.update(streaks)\<close>: only a dictionary has the method.\<close>

definition dict_update :: "json \<Rightarrow> dict \<Rightarrow> py_error + json" where
  "dict_update v new = (case v of JDict m \<Rightarrow> Inr (JDict (m ++\<^sub>f new)) | _ \<Rightarrow> Inl AttributeError)"

definition update_habit_streaks :: "string \<Rightarrow> dict \<Rightarrow> world \<Rightarrow> bool result" where
  "update_habit_streaks user_id streaks w =
     (case get_or_initialize user_id w of
        (Inl e, w0) \<Rightarrow> (Inl e, w0)
      | (Inr doc0, w0) \<Rightarrow>
          (let doc1 = (if fmlookup doc0 ''productivity_insights'' = None
                       then fmupd ''productivity_insights'' default_productivity_insights doc0
                       else doc0)
           in case ensure_sub ''productivity_insights'' ''habit_streaks''
                     default_habit_streaks doc1 of
                Inl e \<Rightarrow> (Inl e, w0)
              | Inr doc2 \<Rightarrow>
                  (let (doc3, w1) = ensure_metadata doc2 w0
                   in case get_sub ''productivity_insights'' ''habit_streaks'' doc3 of
                        Inl e \<Rightarrow> (Inl e, w1)
                      | Inr hs \<Rightarrow>
                          (case dict_update hs streaks of
                             Inl e \<Rightarrow> (Inl e, w1)
                           | Inr hs' \<Rightarrow>
                               (let doc4 = set_sub ''productivity_insights'' ''habit_streaks'' hs' doc3;
                                    (l, w2) = now_iso w1
                                in case set_last_updated l doc4 of
                                     Inl e \<Rightarrow> (Inl e, w2)
                                   | Inr doc \<Rightarrow>
                                       (Inr True, collection_upsert (doc_id user_id) doc w2))))))"

section \<open>The operations exposed to the agent\<close>

text \<open>
  Every tool reads its user from \<^verbatim>\<open>getattr(tool, "user_id", USER_ID)\<close>; here the user is
  the first argument. A tool returns a dictionary.
\<close>

definition USER_ID :: string where
  "USER_ID = ''Chris''"

definition status_message :: "string \<Rightarrow> string \<Rightarrow> dict" where
  "status_message st msg = fmap_of_list [(''status'', JStr st), (''message'', JStr msg)]"

definition initialize_user_profile :: "string \<Rightarrow> world \<Rightarrow> dict result" where
  "initialize_user_profile user_id w =
     (case initialize_user_schema user_id None w of
        (Inl e, w') \<Rightarrow> (Inl e, w')
      | (Inr success, w') \<Rightarrow>
          (if success
           then (Inr (status_message ''success'' (''User profile initialized for '' @ user_id)), w')
           else (Inr (status_message ''error'' ''Failed to initialize user profile''), w')))"

text \<open>
  \<^verbatim>\<open>if key in updates and updates[key]: target[key] = updates[key]\<close>, the statement the
  three update tools are made of.
\<close>

definition take_truthy :: "string \<Rightarrow> dict \<Rightarrow> dict \<Rightarrow> dict" where
  "take_truthy key updates target =
     (case fmlookup updates key of
        Some v \<Rightarrow> if truthy v then fmupd key v target else target
      | None \<Rightarrow> target)"

text \<open>
  The tail shared by the three update tools: \<^verbatim>\<open>if payload: success = update(...); if
  success: return {success}\<close>, and the error result otherwise.
\<close>

definition forward_update ::
  "(json \<Rightarrow> world \<Rightarrow> bool result) \<Rightarrow> dict \<Rightarrow> string \<Rightarrow> string \<Rightarrow> world \<Rightarrow> dict result" where
  "forward_update update payload ok_msg err_msg w =
     (if payload \<noteq> fmempty then
        (case update (JDict payload) w of
           (Inl e, w') \<Rightarrow> (Inl e, w')
         | (Inr success, w') \<Rightarrow>
             (if success then (Inr (status_message ''success'' ok_msg), w')
              else (Inr (status_message ''error'' err_msg), w')))
      else (Inr (status_message ''error'' err_msg), w))"

definition personal_info_of :: "dict \<Rightarrow> dict" where
  "personal_info_of personal_updates =
     take_truthy ''domain'' personal_updates
       (take_truthy ''age'' personal_updates
          (take_truthy ''name'' personal_updates fmempty))"

definition update_personal_info :: "string \<Rightarrow> dict \<Rightarrow> world \<Rightarrow> dict result" where
  "update_personal_info user_id personal_updates w =
     forward_update (update_user_section user_id ''personal_info'')
       (personal_info_of personal_updates)
       ''Personal information updated'' ''No information provided to update'' w"

definition routine_data_of :: "dict \<Rightarrow> dict" where
  "routine_data_of routine_updates =
     take_truthy ''workout_preferences'' routine_updates
       (take_truthy ''working_hours'' routine_updates
          (take_truthy ''meal_timings'' routine_updates fmempty))"

definition update_daily_routine :: "string \<Rightarrow> dict \<Rightarrow> world \<Rightarrow> dict result" where
  "update_daily_routine user_id routine_updates w =
     forward_update (update_user_section user_id ''daily_routine'')
       (routine_data_of routine_updates)
       ''Daily routine updated'' ''No routine information provided'' w"

text \<open>
  \<^verbatim>\<open>s and s.strip()\<close>: the string has a character that is not whitespace (of Python's
  whitespace, the ASCII characters are modelled: tab to carriage return, the four
  separators and the space).
\<close>

definition is_space :: "char \<Rightarrow> bool" where
  "is_space c = ((of_char c :: nat) \<in> {9, 10, 11, 12, 13, 28, 29, 30, 31, 32})"

definition nonblank :: "string \<Rightarrow> bool" where
  "nonblank s = list_ex (\<lambda>c. \<not> is_space c) s"

definition add_task :: "string \<Rightarrow> string \<Rightarrow> string \<Rightarrow> string \<Rightarrow> world \<Rightarrow> dict result" where
  "add_task user_id task_description priority due_date w =
     (let (t, w1) = now w;
          task_id = ''task_'' @ strftime_ymd_hms t;
          (c, w2) = now_iso w1;
          task_data0 = fmap_of_list [
             (''task_id'', JStr task_id),
             (''description'', JStr task_description),
             (''priority'', JStr priority),
             (''status'', JStr ''pending''),
             (''created_at'', c)];
          task_data = (if nonblank due_date then fmupd ''due_date'' (JStr due_date) task_data0
                       else task_data0)
      in case mem_add_task user_id task_data w2 of
           (Inl e, w') \<Rightarrow> (Inl e, w')
         | (Inr success, w') \<Rightarrow>
             (if success
              then (Inr (fmupd ''task_id'' (JStr task_id)
                          (status_message ''success''
                             (''Task '' @ [CHR 0x27] @ task_description @ [CHR 0x27] @
                              '' added with ID: '' @ task_id))), w')
              else (Inr (status_message ''error'' ''Failed to add task''), w')))"

definition complete_task :: "string \<Rightarrow> string \<Rightarrow> world \<Rightarrow> dict result" where
  "complete_task user_id task_id w =
     (case mem_complete_task user_id task_id w of
        (Inl e, w') \<Rightarrow> (Inl e, w')
      | (Inr success, w') \<Rightarrow>
          (if success
           then (Inr (status_message ''success'' (''Task '' @ task_id @ '' marked as completed'')), w')
           else (Inr (status_message ''error''
                        (''Failed to complete task '' @ task_id @ '' - task not found'')), w')))"

text \<open>\<^verbatim>\<open>len(v)\<close>: a list, a string and a dictionary have a length.\<close>

definition py_len :: "json \<Rightarrow> py_error + nat" where
  "py_len v =
     (case v of
        JList xs \<Rightarrow> Inr (length xs)
      | JStr s \<Rightarrow> Inr (length s)
      | JDict m \<Rightarrow> Inr (fcard (fmdom m))
      | _ \<Rightarrow> Inl TypeError)"

definition get_current_tasks :: "string \<Rightarrow> world \<Rightarrow> dict result" where
  "get_current_tasks user_id w =
     (case get_user_section user_id (Some ''task_tracking'') w of
        JDict tasks \<Rightarrow>
          (let current_tasks = (case fmlookup tasks ''current_tasks'' of
                                  Some v \<Rightarrow> v | None \<Rightarrow> JList [])
           in case py_len current_tasks of
                Inl e \<Rightarrow> (Inl e, w)
              | Inr n \<Rightarrow>
                  (Inr (fmap_of_list [
                     (''status'', JStr ''success''),
                     (''current_tasks'', current_tasks),
                     (''count'', JInt (int n))]), w))
      | _ \<Rightarrow> (Inl AttributeError, w))"

definition insights_of :: "dict \<Rightarrow> dict" where
  "insights_of insights_updates =
     take_truthy ''habit_streaks'' insights_updates
       (take_truthy ''energy_levels'' insights_updates
          (take_truthy ''best_focus_times'' insights_updates fmempty))"

definition update_productivity_insights :: "string \<Rightarrow> dict \<Rightarrow> world \<Rightarrow> dict result" where
  "update_productivity_insights user_id insights_updates w =
     forward_update (mem_update_productivity_insights user_id)
       (insights_of insights_updates)
       ''Productivity insights updated'' ''No insights provided'' w"

text \<open>
  \<^verbatim>\<open>add_habit_or_blocker\<close>. The section read is a copy of the stored one: what the tool
  changes in it reaches the store through \<^verbatim>\<open>update_user_section\<close> only.
\<close>

definition add_habit_or_blocker :: "string \<Rightarrow> string \<Rightarrow> string \<Rightarrow> world \<Rightarrow> dict result" where
  "add_habit_or_blocker user_id category item w =
     (if category \<notin> set [''procrastination_habits'', ''known_blockers'']
      then (Inr (status_message ''error''
                   (''Category must be '' @ [CHR 0x27] @ ''procrastination_habits'' @ [CHR 0x27] @
                    '' or '' @ [CHR 0x27] @ ''known_blockers'' @ [CHR 0x27])), w)
      else
        (let habits_data0 = get_user_section user_id (Some ''habits_and_behaviors'') w;
             info = status_message ''info''
                      ([CHR 0x27] @ item @ [CHR 0x27] @ '' already exists in '' @ category)
         in case py_in category habits_data0 of
              Inl e \<Rightarrow> (Inl e, w)
            | Inr present \<Rightarrow>
                (case habits_data0 of
                   JDict h0 \<Rightarrow>
                     (let h1 = (if present then h0 else fmupd category (JList []) h0)
                      in case fmlookup h1 category of
                           None \<Rightarrow> (Inl KeyError, w)
                         | Some v \<Rightarrow>
                             (case py_in item v of
                                Inl e \<Rightarrow> (Inl e, w)
                              | Inr True \<Rightarrow> (Inr info, w)
                              | Inr False \<Rightarrow>
                                  (case list_append v (JStr item) of
                                     Inl e \<Rightarrow> (Inl e, w)
                                   | Inr v' \<Rightarrow>
                                       (case update_user_section user_id ''habits_and_behaviors''
                                               (JDict (fmupd category v' h1)) w of
                                          (Inl e, w') \<Rightarrow> (Inl e, w')
                                        | (Inr success, w') \<Rightarrow>
                                            (if success
                                             then (Inr (status_message ''success''
                                                     (''Added '' @ [CHR 0x27] @ item @ [CHR 0x27] @
                                                      '' to '' @ category)), w')
                                             else (Inr info, w'))))))
                 | _ \<Rightarrow> (Inl TypeError, w))))"

definition get_user_profile :: "string \<Rightarrow> string \<Rightarrow> world \<Rightarrow> dict result" where
  "get_user_profile user_id section w =
     (if nonblank section
      then (Inr (fmap_of_list [
              (''status'', JStr ''success''),
              (''section'', JStr section),
              (''data'', get_user_section user_id (Some section) w)]), w)
      else (Inr (fmap_of_list [
              (''status'', JStr ''success''),
              (''profile'', get_user_section user_id None w)]), w))"

section \<open>Vocabulary of the properties\<close>

text \<open>
  The shape the data model gives a stored document, as far as an operation depends on it:
  \<^verbatim>\<open>metadata\<close> is a dictionary when it is there.
\<close>

definition metadata_ok :: "dict \<Rightarrow> bool" where
  "metadata_ok doc = (case fmlookup doc ''metadata'' of None \<Rightarrow> True | Some v \<Rightarrow> is_dict v)"

text \<open>
  Seed data that leaves the metadata block of the default schema alone (the default
  argument \<open>None\<close> among them).
\<close>

definition seed_ok :: "dict option \<Rightarrow> bool" where
  "seed_ok user_data =
     (case user_data of None \<Rightarrow> True | Some ud \<Rightarrow> fmlookup ud ''metadata'' = None)"

section \<open>Example worlds\<close>

text \<open>A clock whose readings fall into one second and advance by a microsecond each.\<close>

definition example_clock :: "nat \<Rightarrow> datetime" where
  "example_clock n =
     \<lparr>year = 2025, month = 7, day = 6, hour = 9, minute = 30, second = 15,
      microsecond = 100 + n\<rparr>"

definition empty_world :: world where
  "empty_world = \<lparr>docs = Map.empty, clock = example_clock, tick = 0, upserts = 0\<rparr>"

text \<open>A store with one document, older than the schema: it holds a name and nothing else.\<close>

definition legacy_doc :: dict where
  "legacy_doc = fmap_of_list [(''personal_info'', JDict (fmap_of_list [(''name'', JStr ''Sam'')]))]"

definition legacy_world :: world where
  "legacy_world =
     \<lparr>docs = [doc_id ''Chris'' \<mapsto> legacy_doc], clock = example_clock, tick = 0, upserts = 0\<rparr>"

definition initialized_world :: world where
  "initialized_world = snd (initialize_user_schema ''Chris'' None empty_world)"

definition age_30 :: dict where
  "age_30 = fmap_of_list [(''age'', JInt 30)]"

definition name_alex :: dict where
  "name_alex = fmap_of_list [(''name'', JStr ''Alex'')]"

section \<open>Basic facts\<close>

lemma is_dict_iff: "is_dict v \<longleftrightarrow> (\<exists>m. v = JDict m)"
  by (cases v) auto

lemma metadata_ok_cases:
  "metadata_ok doc \<longleftrightarrow>
     fmlookup doc ''metadata'' = None \<or> (\<exists>m. fmlookup doc ''metadata'' = Some (JDict m))"
  by (auto simp: metadata_ok_def is_dict_iff split: option.splits)

lemma now_iso_eq:
  "now_iso w = (JStr (isoformat (clock w (tick w))), w\<lparr>tick := Suc (tick w)\<rparr>)"
  by (simp add: now_iso_def now_def)

lemma set_last_updated_dict:
  "fmlookup d ''metadata'' = Some (JDict m) \<Longrightarrow>
   set_last_updated v d = Inr (fmupd ''metadata'' (JDict (fmupd ''last_updated'' v m)) d)"
  by (simp add: set_last_updated_def)

lemma default_schema_metadata:
  "fmlookup (default_schema c l) ''metadata'' = Some (new_metadata c l)"
  by (simp add: default_schema_def)

lemma default_schema_dom:
  "fmdom (default_schema c l) =
     {|''personal_info'', ''daily_routine'', ''habits_and_behaviors'', ''task_tracking'',
       ''productivity_insights'', ''preferences'', ''metadata''|}"
  by (auto simp add: default_schema_def)

lemma apply_seed_metadata:
  "seed_ok seed \<Longrightarrow>
   fmlookup (apply_seed seed schema) ''metadata'' = fmlookup schema ''metadata''"
  by (auto simp: seed_ok_def apply_seed_def fmdom_notI split: option.splits)

lemma apply_seed_keeps:
  "fmlookup schema k \<noteq> None \<Longrightarrow> fmlookup (apply_seed seed schema) k \<noteq> None"
  by (auto simp: apply_seed_def fmlookup_dom_iff split: option.splits)

lemma metadata_reorder:
  "fmupd ''last_updated'' a (fmupd ''created_at'' b (fmupd ''last_updated'' c m)) =
   fmupd ''created_at'' b (fmupd ''last_updated'' a m)"
  by (rule fmap_ext) auto

lemma initialize_fresh:
  assumes "docs w (doc_id u) = None" and "seed_ok seed"
  shows "initialize_user_schema u seed w =
     (Inr True, w\<lparr>tick := tick w + 3,
        docs := (docs w)(doc_id u \<mapsto>
          fmupd ''metadata'' (JDict (fmap_of_list [
             (''created_at'', JStr (isoformat (clock w (tick w)))),
             (''last_updated'', JStr (isoformat (clock w (tick w + 2)))),
             (''version'', JInt 1)]))
           (apply_seed seed (default_schema (JStr (isoformat (clock w (tick w))))
              (JStr (isoformat (clock w (tick w + 1))))))),
        upserts := Suc (upserts w)\<rparr>)"
  using assms
  by (simp add: initialize_user_schema_def now_iso_eq Let_def apply_seed_metadata
      default_schema_metadata new_metadata_def set_last_updated_dict collection_get_def
      collection_upsert_def metadata_reorder)

lemma isoformat_examples:
  "isoformat (example_clock 0) = ''2025-07-06T09:30:15.000100''"
  "isoformat (example_clock (Suc (Suc 0))) = ''2025-07-06T09:30:15.000102''"
  by code_simp+

lemma empty_world_simps:
  "docs empty_world k = None" "tick empty_world = 0" "clock empty_world = example_clock"
  "upserts empty_world = 0"
  by (simp_all add: empty_world_def)

lemma merge_section_other:
  "k \<noteq> section \<Longrightarrow> fmlookup (merge_section section data doc) k = fmlookup doc k"
  by (cases "fmlookup doc section"; cases data) (auto simp: merge_section_def split: json.splits)

lemma merge_section_dict:
  "fmlookup doc section = Some (JDict old) \<Longrightarrow>
   merge_section section (JDict new) doc = fmupd section (JDict (old ++\<^sub>f new)) doc"
  by (simp add: merge_section_def)

lemma merge_section_absent:
  "fmlookup doc section = None \<Longrightarrow> merge_section section data doc = fmupd section data doc"
  by (simp add: merge_section_def)

lemma merge_section_drop_metadata:
  "section \<noteq> ''metadata'' \<Longrightarrow>
   fmupd ''metadata'' x (merge_section section data (fmupd ''metadata'' y doc)) =
   fmupd ''metadata'' x (merge_section section data doc)"
  by (cases "fmlookup doc section"; cases data)
     (auto simp: merge_section_def intro!: fmap_ext split: json.splits)

lemma update_existing_meta:
  assumes "docs w (doc_id u) = Some doc" and "fmlookup doc ''metadata'' = Some (JDict m)"
    and "section \<noteq> ''metadata''"
  shows "update_user_section u section data w =
     (Inr True, w\<lparr>tick := Suc (tick w),
        docs := (docs w)(doc_id u \<mapsto>
          fmupd ''metadata''
            (JDict (fmupd ''last_updated'' (JStr (isoformat (clock w (tick w)))) m))
            (merge_section section data doc)),
        upserts := Suc (upserts w)\<rparr>)"
  using assms
  by (simp add: update_user_section_def get_or_initialize_def collection_get_def
      ensure_metadata_def now_iso_eq set_last_updated_dict merge_section_other
      collection_upsert_def)

lemma update_existing_nometa:
  assumes "docs w (doc_id u) = Some doc" and "fmlookup doc ''metadata'' = None"
    and "section \<noteq> ''metadata''"
  shows "update_user_section u section data w =
     (Inr True, w\<lparr>tick := tick w + 3,
        docs := (docs w)(doc_id u \<mapsto>
          fmupd ''metadata'' (JDict (fmap_of_list [
             (''created_at'', JStr (isoformat (clock w (tick w)))),
             (''last_updated'', JStr (isoformat (clock w (tick w + 2)))),
             (''version'', JInt 1)]))
            (merge_section section data doc)),
        upserts := Suc (upserts w)\<rparr>)"
  using assms
  by (simp add: update_user_section_def get_or_initialize_def collection_get_def Let_def
      ensure_metadata_def now_iso_eq set_last_updated_dict merge_section_other
      collection_upsert_def new_metadata_def metadata_reorder merge_section_drop_metadata)

lemma update_metadata_section:
  assumes "docs w (doc_id u) = Some doc" and "fmlookup doc ''metadata'' = Some (JDict m)"
  shows "update_user_section u ''metadata'' (JDict new) w =
     (Inr True, w\<lparr>tick := Suc (tick w),
        docs := (docs w)(doc_id u \<mapsto>
          fmupd ''metadata''
            (JDict (fmupd ''last_updated'' (JStr (isoformat (clock w (tick w)))) (m ++\<^sub>f new)))
            doc),
        upserts := Suc (upserts w)\<rparr>)"
  using assms
  by (simp add: update_user_section_def get_or_initialize_def collection_get_def
      ensure_metadata_def now_iso_eq set_last_updated_dict merge_section_dict
      collection_upsert_def)

lemma update_existing_section:
  assumes "docs w (doc_id u) = Some doc" and "metadata_ok doc" and "section \<noteq> ''metadata''"
  shows "\<exists>w' doc'. update_user_section u section data w = (Inr True, w') \<and>
      docs w' (doc_id u) = Some doc' \<and> metadata_ok doc' \<and>
      upserts w' = Suc (upserts w) \<and> clock w' = clock w \<and>
      fmlookup doc' section = fmlookup (merge_section section data doc) section \<and>
      (\<forall>k. k \<noteq> section \<and> k \<noteq> ''metadata'' \<longrightarrow> fmlookup doc' k = fmlookup doc k)"
proof -
  from assms(2) consider (none) "fmlookup doc ''metadata'' = None"
    | (some) m where "fmlookup doc ''metadata'' = Some (JDict m)"
    by (auto simp: metadata_ok_cases)
  then show ?thesis
  proof cases
    case none
    show ?thesis
      unfolding update_existing_nometa [OF assms(1) none assms(3)]
      using assms(3) by (simp add: metadata_ok_def merge_section_other)
  next
    case some
    show ?thesis
      unfolding update_existing_meta [OF assms(1) some assms(3)]
      using assms(3) by (simp add: metadata_ok_def merge_section_other)
  qed
qed

lemma isoformat_example_3:
  "isoformat (example_clock 3) = ''2025-07-06T09:30:15.000103''"
  by code_simp

lemma initialized_world_eq:
  "initialized_world = empty_world\<lparr>tick := 3,
      docs := [doc_id ''Chris'' \<mapsto>
          fmupd ''metadata'' (JDict (fmap_of_list [
             (''created_at'', JStr (isoformat (example_clock 0))),
             (''last_updated'', JStr (isoformat (example_clock 2))),
             (''version'', JInt 1)]))
           (default_schema (JStr (isoformat (example_clock 0)))
              (JStr (isoformat (example_clock 1))))],
      upserts := 1\<rparr>"
proof -
  have a: "docs empty_world (doc_id ''Chris'') = None"
    by (simp add: empty_world_simps)
  have b: "seed_ok None"
    by (simp add: seed_ok_def)
  have c: "docs empty_world = Map.empty"
    by (simp add: empty_world_def)
  show ?thesis
    unfolding initialized_world_def initialize_fresh [OF a b]
    by (simp add: empty_world_simps apply_seed_def c numeral_2_eq_2)
qed

lemma initialized_world_doc:
  "\<exists>doc m. docs initialized_world (doc_id ''Chris'') = Some doc \<and> metadata_ok doc \<and>
     fmlookup doc ''personal_info'' = Some (JDict (fmap_of_list [
        (''name'', JStr []), (''age'', JInt 0), (''domain'', JStr [])])) \<and>
     fmlookup doc ''metadata'' = Some (JDict m) \<and>
     fmlookup m ''version'' = Some (JInt 1) \<and>
     tick initialized_world = 3 \<and> clock initialized_world = example_clock"
  unfolding initialized_world_eq
  by (simp add: metadata_ok_def default_schema_def empty_world_simps)

lemma legacy_world_simps:
  "docs legacy_world (doc_id ''Chris'') = Some legacy_doc"
  "metadata_ok legacy_doc"
  "fmlookup legacy_doc ''personal_info'' = Some (JDict (fmap_of_list [(''name'', JStr ''Sam'')]))"
  "fmlookup legacy_doc ''metadata'' = None"
  by (simp_all add: legacy_world_def legacy_doc_def metadata_ok_def)

lemma alex_30:
  "fmap_of_list [(''name'', JStr ''Sam'')] ++\<^sub>f age_30 ++\<^sub>f name_alex =
   fmap_of_list [(''name'', JStr ''Alex''), (''age'', JInt 30)]"
  "fmap_of_list [(''name'', JStr []), (''age'', JInt 0), (''domain'', JStr [])]
     ++\<^sub>f age_30 ++\<^sub>f name_alex =
   fmap_of_list [(''name'', JStr ''Alex''), (''age'', JInt 30), (''domain'', JStr [])]"
  by (rule fmap_ext; simp add: age_30_def name_alex_def)+

section \<open>Reading a section\<close>

text \<open>
  Claim C7. For a user with no stored document \<^verbatim>\<open>get_user_section\<close> returns the empty
  dictionary, whether a section is named or the whole document is asked for; for a stored
  document without the named section it returns the empty dictionary as well. The function
  has no exception among its results: it always returns a value.
\<close>

theorem get_user_section_absent:
  "(collection_get w (doc_id u) = None \<longrightarrow> get_user_section u section w = JDict fmempty) \<and>
   (collection_get w (doc_id u) = Some doc \<and> s \<noteq> [] \<and> fmlookup doc s = None \<longrightarrow>
      get_user_section u (Some s) w = JDict fmempty)"
  by (simp add: get_user_section_def)

theorem get_user_section_absent_witness:
  "collection_get empty_world (doc_id ''Chris'') = None \<and>
   get_user_section ''Chris'' (Some ''task_tracking'') empty_world = JDict fmempty \<and>
   get_user_section ''Chris'' None empty_world = JDict fmempty \<and>
   collection_get legacy_world (doc_id ''Chris'') = Some legacy_doc \<and>
   fmlookup legacy_doc ''task_tracking'' = None \<and>
   get_user_section ''Chris'' (Some ''task_tracking'') legacy_world = JDict fmempty"
proof -
  have none: "collection_get empty_world (doc_id ''Chris'') = None"
    by (simp add: collection_get_def empty_world_def)
  have some: "collection_get legacy_world (doc_id ''Chris'') = Some legacy_doc"
    by (simp add: collection_get_def legacy_world_def)
  have absent: "fmlookup legacy_doc ''task_tracking'' = None"
    by (simp add: legacy_doc_def fmlookup_of_list)
  from none some absent
    get_user_section_absent [of empty_world "''Chris''" "Some ''task_tracking''"]
    get_user_section_absent [of empty_world "''Chris''" None]
    get_user_section_absent [of legacy_world "''Chris''" _ legacy_doc "''task_tracking''"]
  show ?thesis by simp
qed

section \<open>Initialization\<close>

text \<open>
  Claim C2, as amended. For a user with no stored document and seed data that leaves the
  metadata block alone, \<^verbatim>\<open>initialize_user_schema\<close> returns \<open>True\<close> and writes, in one
  upsert, a document with the seven top-level sections of the schema, version 1,
  \<^verbatim>\<open>created_at\<close> the first clock reading of the call and \<^verbatim>\<open>last_updated\<close> the third.
\<close>

theorem initialize_new_user:
  assumes "collection_get w (doc_id u) = None" and "seed_ok seed"
  shows "\<exists>w' doc. initialize_user_schema u seed w = (Inr True, w') \<and>
      collection_get w' (doc_id u) = Some doc \<and>
      upserts w' = Suc (upserts w) \<and>
      (\<forall>k \<in> {''personal_info'', ''daily_routine'', ''habits_and_behaviors'', ''task_tracking'',
         ''productivity_insights'', ''preferences'', ''metadata''}. fmlookup doc k \<noteq> None) \<and>
      get_sub ''metadata'' ''version'' doc = Inr (JInt 1) \<and>
      get_sub ''metadata'' ''created_at'' doc = Inr (JStr (isoformat (clock w (tick w)))) \<and>
      get_sub ''metadata'' ''last_updated'' doc = Inr (JStr (isoformat (clock w (tick w + 2))))"
proof -
  have secs: "k |\<in>| fmdom (default_schema c l) \<Longrightarrow>
      fmlookup (apply_seed seed (default_schema c l)) k \<noteq> None" for k c l
    by (rule apply_seed_keeps) (simp add: fmlookup_dom_iff del: default_schema_dom)
  show ?thesis
    using assms(1) secs
    unfolding initialize_fresh[OF assms(1)[unfolded collection_get_def] assms(2)]
    by (simp add: collection_get_def get_sub_def default_schema_dom)
qed

theorem initialize_new_user_witness:
  "collection_get empty_world (doc_id ''Chris'') = None \<and> seed_ok None \<and>
   (\<exists>w' doc. initialize_user_schema ''Chris'' None empty_world = (Inr True, w') \<and>
      collection_get w' (doc_id ''Chris'') = Some doc \<and>
      upserts w' = 1 \<and>
      fmlookup doc ''task_tracking'' \<noteq> None \<and>
      get_sub ''metadata'' ''version'' doc = Inr (JInt 1) \<and>
      get_sub ''metadata'' ''created_at'' doc = Inr (JStr ''2025-07-06T09:30:15.000100''))"
proof -
  have a: "collection_get empty_world (doc_id ''Chris'') = None"
    by (simp add: collection_get_def empty_world_simps)
  have b: "seed_ok None"
    by (simp add: seed_ok_def)
  from initialize_new_user [OF a b] a b show ?thesis
    by (auto simp: empty_world_simps isoformat_examples)
qed

text \<open>
  Claim C2 as stated fails: the call returns \<open>True\<close>, not the document, and on a clock that
  advances between two readings \<^verbatim>\<open>created_at\<close> and \<^verbatim>\<open>last_updated\<close> differ.
\<close>

theorem initialize_timestamps_differ:
  "fst (initialize_user_schema ''Chris'' None empty_world) = Inr True \<and>
   get_sub ''metadata'' ''created_at''
     (the (collection_get (snd (initialize_user_schema ''Chris'' None empty_world))
        (doc_id ''Chris''))) = Inr (JStr ''2025-07-06T09:30:15.000100'') \<and>
   get_sub ''metadata'' ''last_updated''
     (the (collection_get (snd (initialize_user_schema ''Chris'' None empty_world))
        (doc_id ''Chris''))) = Inr (JStr ''2025-07-06T09:30:15.000102'')"
proof -
  have a: "docs empty_world (doc_id ''Chris'') = None"
    by (simp add: empty_world_simps)
  have b: "seed_ok None"
    by (simp add: seed_ok_def)
  show ?thesis
    unfolding initialize_fresh [OF a b]
    by (simp add: collection_get_def get_sub_def empty_world_simps isoformat_examples)
qed


section \<open>Updating a section\<close>

text \<open>
  Claim C1, as amended. For a stored document whose metadata is absent or a dictionary,
  a section other than \<^verbatim>\<open>metadata\<close> whose value is a dictionary \<open>old\<close>, and a
  dictionary payload \<open>new\<close>, \<^verbatim>\<open>update_user_section\<close> returns \<open>True\<close> and stores the
  shallow merge: every key of the payload has the payload's value, every other key what the
  section held before. A second update with \<open>new2\<close> merges into the result of the first,
  so that the two updates of the example leave \<^verbatim>\<open>name\<close> and \<^verbatim>\<open>age\<close> as given and
  every other key of the section as it was.
\<close>

theorem update_user_section_shallow_merge:
  assumes "collection_get w (doc_id u) = Some doc" and "metadata_ok doc"
    and "section \<noteq> ''metadata''" and "fmlookup doc section = Some (JDict old)"
  shows "\<exists>w' doc'. update_user_section u section (JDict new) w = (Inr True, w') \<and>
      collection_get w' (doc_id u) = Some doc' \<and>
      fmlookup doc' section = Some (JDict (old ++\<^sub>f new)) \<and>
      (\<forall>k. get_sub section k doc' =
             (case fmlookup new k of Some v \<Rightarrow> Inr v | None \<Rightarrow> get_sub section k doc)) \<and>
      (\<exists>w'' doc''. update_user_section u section (JDict new2) w' = (Inr True, w'') \<and>
          collection_get w'' (doc_id u) = Some doc'' \<and>
          fmlookup doc'' section = Some (JDict (old ++\<^sub>f new ++\<^sub>f new2)))"
proof -
  from update_existing_section [OF assms(1)[unfolded collection_get_def] assms(2,3)]
  obtain w' doc' where 1: "update_user_section u section (JDict new) w = (Inr True, w')"
    and 2: "docs w' (doc_id u) = Some doc'" and 3: "metadata_ok doc'"
    and 4: "fmlookup doc' section = fmlookup (merge_section section (JDict new) doc) section"
    by blast
  have 5: "fmlookup doc' section = Some (JDict (old ++\<^sub>f new))"
    using 4 assms(4) by (simp add: merge_section_dict)
  from update_existing_section [OF 2 3 assms(3)]
  obtain w'' doc'' where 6: "update_user_section u section (JDict new2) w' = (Inr True, w'')"
    and 7: "docs w'' (doc_id u) = Some doc''"
    and 8: "fmlookup doc'' section = fmlookup (merge_section section (JDict new2) doc') section"
    by blast
  have 9: "fmlookup doc'' section = Some (JDict (old ++\<^sub>f new ++\<^sub>f new2))"
    using 8 5 by (simp add: merge_section_dict)
  have 10: "get_sub section k doc' =
      (case fmlookup new k of Some v \<Rightarrow> Inr v | None \<Rightarrow> get_sub section k doc)" for k
    using 5 assms(4) by (simp add: get_sub_def fmlookup_dom_iff split: option.splits)
  show ?thesis
    using 1 2 5 6 7 9 10 by (simp add: collection_get_def)
qed

text \<open>
  On the legacy document, whose \<^verbatim>\<open>personal_info\<close> holds a name only, the two updates of the
  example give exactly the dictionary with the name Alex and the age 30.
\<close>

theorem update_user_section_shallow_merge_witness:
  "collection_get legacy_world (doc_id ''Chris'') = Some legacy_doc \<and>
   metadata_ok legacy_doc \<and> ''personal_info'' \<noteq> ''metadata'' \<and>
   fmlookup legacy_doc ''personal_info'' = Some (JDict (fmap_of_list [(''name'', JStr ''Sam'')])) \<and>
   (\<exists>w' w'' doc''.
      update_user_section ''Chris'' ''personal_info'' (JDict age_30) legacy_world = (Inr True, w') \<and>
      update_user_section ''Chris'' ''personal_info'' (JDict name_alex) w' = (Inr True, w'') \<and>
      collection_get w'' (doc_id ''Chris'') = Some doc'' \<and>
      fmlookup doc'' ''personal_info'' =
        Some (JDict (fmap_of_list [(''name'', JStr ''Alex''), (''age'', JInt 30)])))"
proof -
  have a: "collection_get legacy_world (doc_id ''Chris'') = Some legacy_doc"
    by (simp add: collection_get_def legacy_world_simps)
  have b: "''personal_info'' \<noteq> ''metadata''"
    by simp
  from update_user_section_shallow_merge
    [OF a legacy_world_simps(2) b legacy_world_simps(3), of age_30 name_alex]
  show ?thesis
    using a legacy_world_simps(2,3) unfolding alex_30 by auto
qed

text \<open>
  Claim C1 as stated fails. On a document as \<^verbatim>\<open>initialize_user_schema\<close> writes it, the two
  updates of the example leave a \<^verbatim>\<open>personal_info\<close> that also holds the key \<^verbatim>\<open>domain\<close> of
  the default schema, which is not the dictionary the claim names; and on the section
  \<^verbatim>\<open>metadata\<close> the key \<^verbatim>\<open>last_updated\<close> of the payload does not keep the payload's
  value, since the refresh of the timestamp overwrites it.
\<close>

theorem update_user_section_example_fails:
  "fmlookup (the (collection_get
      (snd (update_user_section ''Chris'' ''personal_info'' (JDict name_alex)
         (snd (update_user_section ''Chris'' ''personal_info'' (JDict age_30)
            initialized_world))))
      (doc_id ''Chris''))) ''personal_info'' =
     Some (JDict (fmap_of_list
       [(''name'', JStr ''Alex''), (''age'', JInt 30), (''domain'', JStr [])])) \<and>
   fmap_of_list [(''name'', JStr ''Alex''), (''age'', JInt 30), (''domain'', JStr [])] \<noteq>
     (fmap_of_list [(''name'', JStr ''Alex''), (''age'', JInt 30)] :: dict) \<and>
   get_sub ''metadata'' ''last_updated'' (the (collection_get
      (snd (update_user_section ''Chris'' ''metadata''
         (JDict (fmap_of_list [(''last_updated'', JStr ''never'')])) initialized_world))
      (doc_id ''Chris''))) = Inr (JStr ''2025-07-06T09:30:15.000103'')"
proof -
  from initialized_world_doc obtain doc m
    where d: "docs initialized_world (doc_id ''Chris'') = Some doc" and ok: "metadata_ok doc"
      and pi: "fmlookup doc ''personal_info'' = Some (JDict (fmap_of_list [
        (''name'', JStr []), (''age'', JInt 0), (''domain'', JStr [])]))"
      and md: "fmlookup doc ''metadata'' = Some (JDict m)"
      and t: "tick initialized_world = 3" and c: "clock initialized_world = example_clock"
    by blast
  have ne: "''personal_info'' \<noteq> ''metadata''"
    by simp
  from update_existing_section [OF d ok ne, of "JDict age_30"]
  obtain w' doc' where 1: "update_user_section ''Chris'' ''personal_info'' (JDict age_30)
        initialized_world = (Inr True, w')"
    and 2: "docs w' (doc_id ''Chris'') = Some doc'" and 3: "metadata_ok doc'"
    and 4: "fmlookup doc' ''personal_info'' =
        fmlookup (merge_section ''personal_info'' (JDict age_30) doc) ''personal_info''"
    by blast
  from update_existing_section [OF 2 3 ne, of "JDict name_alex"]
  obtain w'' doc'' where 5: "update_user_section ''Chris'' ''personal_info'' (JDict name_alex) w'
        = (Inr True, w'')"
    and 6: "docs w'' (doc_id ''Chris'') = Some doc''"
    and 7: "fmlookup doc'' ''personal_info'' =
        fmlookup (merge_section ''personal_info'' (JDict name_alex) doc') ''personal_info''"
    by blast
  have 8: "fmlookup doc' ''personal_info'' = Some (JDict (fmap_of_list [
        (''name'', JStr []), (''age'', JInt 0), (''domain'', JStr [])] ++\<^sub>f age_30))"
    using 4 pi by (simp add: merge_section_dict)
  have 9: "fmlookup doc'' ''personal_info'' = Some (JDict (fmap_of_list
       [(''name'', JStr ''Alex''), (''age'', JInt 30), (''domain'', JStr [])]))"
    using 7 8 alex_30(2) by (simp add: merge_section_dict)
  have A: "fmlookup (the (collection_get
      (snd (update_user_section ''Chris'' ''personal_info'' (JDict name_alex)
         (snd (update_user_section ''Chris'' ''personal_info'' (JDict age_30)
            initialized_world))))
      (doc_id ''Chris''))) ''personal_info'' =
     Some (JDict (fmap_of_list
       [(''name'', JStr ''Alex''), (''age'', JInt 30), (''domain'', JStr [])]))"
    using 1 5 6 9 by (simp add: collection_get_def)
  have B: "fmap_of_list [(''name'', JStr ''Alex''), (''age'', JInt 30), (''domain'', JStr [])] \<noteq>
     (fmap_of_list [(''name'', JStr ''Alex''), (''age'', JInt 30)] :: dict)"
  proof
    assume "fmap_of_list [(''name'', JStr ''Alex''), (''age'', JInt 30), (''domain'', JStr [])] =
     (fmap_of_list [(''name'', JStr ''Alex''), (''age'', JInt 30)] :: dict)"
    then have "fmlookup (fmap_of_list
        [(''name'', JStr ''Alex''), (''age'', JInt 30), (''domain'', JStr [])]) ''domain'' =
      fmlookup (fmap_of_list [(''name'', JStr ''Alex''), (''age'', JInt 30)] :: dict) ''domain''"
      by (rule arg_cong)
    then show False by simp
  qed
  have C: "get_sub ''metadata'' ''last_updated'' (the (collection_get
      (snd (update_user_section ''Chris'' ''metadata''
         (JDict (fmap_of_list [(''last_updated'', JStr ''never'')])) initialized_world))
      (doc_id ''Chris''))) = Inr (JStr ''2025-07-06T09:30:15.000103'')"
    unfolding update_metadata_section [OF d md]
    by (simp add: collection_get_def get_sub_def t c isoformat_example_3)
  from A B C show ?thesis by blast
qed

end
